theory Spec2Isabelle
  imports Main "HOL-Library.Multiset"
begin

section \<open>Data model (types.ts)\<close>

text \<open>
  Identifiers (\<open>_id\<close>, \<open>householdId\<close>, \<open>personId\<close>, the entries of \<open>tagIds\<close>) are
  strings in the source. Timestamps (\<open>createdAt\<close>) are ISO strings that the source only
  reads through \<open>new Date(x).getTime()\<close>; they are kept as that number.
\<close>

type_synonym ident = string

datatype role = Owner | Admin | Member | Viewer

datatype person_status = Active | Inactive | Visitor

datatype field_visibility = Public | Staff_only

datatype note_visibility = Note_staff_only | Org

datatype relationship = Head | Spouse | Child | Other

record Person =
  person_id :: ident
  person_status :: person_status
  person_householdId :: "ident option"
  person_tagIds :: "ident list"
  person_createdAt :: nat

text \<open>
  \<open>Tag\<close>, \<open>Household\<close> and \<open>HouseholdMember\<close> declare no \<open>archived\<close> attribute in
  types.ts, but the pages write \<open>{ archived: true }\<close> to all three; the attribute is
  part of the stored row, absent meaning \<open>False\<close>.
\<close>

record Tag =
  tag_id :: ident
  tag_name :: string
  tag_createdAt :: nat
  tag_archived :: bool

record Household =
  household_id :: ident
  household_name :: string
  household_archived :: bool

record HouseholdMember =
  member_id :: ident
  member_householdId :: ident
  member_personId :: ident
  member_relationship :: relationship
  member_archived :: bool

record Note =
  note_id :: ident
  note_personId :: ident
  note_body :: string
  note_visibility :: note_visibility
  note_createdAt :: nat

record ProfileFieldDef =
  field_key :: string
  field_visibility :: field_visibility
  field_archived :: bool
  field_orderIndex :: int

section \<open>Array.prototype.sort with a comparator\<close>

text \<open>
  \<open>xs.sort(cmp)\<close> is a stable sort: \<open>x\<close> is placed before \<open>y\<close> when \<open>cmp(x, y) < 0\<close>,
  after it when \<open>cmp(x, y) > 0\<close>, and elements that compare equal keep their order.
  Insertion from the right end is such a sort.
\<close>

fun insert_cmp :: "('a \<Rightarrow> 'a \<Rightarrow> int) \<Rightarrow> 'a \<Rightarrow> 'a list \<Rightarrow> 'a list" where
  "insert_cmp cmp x [] = [x]"
| "insert_cmp cmp x (y # ys) =
     (if cmp x y \<le> 0 then x # y # ys else y # insert_cmp cmp x ys)"

definition sort_cmp :: "('a \<Rightarrow> 'a \<Rightarrow> int) \<Rightarrow> 'a list \<Rightarrow> 'a list" where
  "sort_cmp cmp xs = foldr (insert_cmp cmp) xs []"

section \<open>Derived views\<close>

subsection \<open>Visible profile fields (PersonProfile.loadData, PersonForm.loadData)\<close>

text \<open>
  \<open>fieldsRes.data.filter(f => !f.archived && (f.visibility === 'public' || userRole !== 'viewer'))\<close>,
  the same expression in both components. The argument is what \<open>ProfileFieldDef.list()\<close>
  returned.
\<close>

definition visibleFields :: "role \<Rightarrow> ProfileFieldDef list \<Rightarrow> ProfileFieldDef list" where
  "visibleFields userRole fieldsRes =
     filter (\<lambda>f. \<not> field_archived f \<and> (field_visibility f = Public \<or> userRole \<noteq> Viewer))
       fieldsRes"

text \<open>
  ProfileFields.loadData (the settings page):
  \<open>response.data.filter(field => !field.archived).sort((a, b) => a.orderIndex - b.orderIndex)\<close>.
\<close>

definition sortedFields :: "ProfileFieldDef list \<Rightarrow> ProfileFieldDef list" where
  "sortedFields response =
     sort_cmp (\<lambda>a b. field_orderIndex a - field_orderIndex b)
       (filter (\<lambda>field. \<not> field_archived field) response)"

subsection \<open>Notes (PersonProfile.loadData, Dashboard.loadDashboardData)\<close>

text \<open>
  \<open>notesRes.data.filter(note => note.personId === id).sort((a, b) => b.createdAt - a.createdAt)\<close>
  (through \<open>getTime()\<close>), where \<open>id\<close> is the route parameter, \<open>routeId\<close> here
  (\<open>id\<close> is taken in HOL). \<open>userRole\<close> is in scope in PersonProfile and does not occur in
  the expression.
\<close>

definition personNotes :: "ident \<Rightarrow> Note list \<Rightarrow> Note list" where
  "personNotes routeId notesRes =
     sort_cmp (\<lambda>a b. int (note_createdAt b) - int (note_createdAt a))
       (filter (\<lambda>note. note_personId note = routeId) notesRes)"

text \<open>
  Dashboard: \<open>notesResponse.data.slice(0, 10)\<close>, stored as \<open>recentNotes\<close> and rendered as
  it is. The Dashboard reads only \<open>organizationId\<close> from the context, not the role.
\<close>

definition recentNotes :: "Note list \<Rightarrow> Note list" where
  "recentNotes notesResponse = take 10 notesResponse"

subsection \<open>Top tags (Dashboard.loadDashboardData)\<close>

text \<open>
  \<open>people.filter(p => p.tagIds.includes(tag._id)).length\<close>; the object
  \<open>{ ...tag, count }\<close> is the pair of the tag and its count.
\<close>

definition usageCount :: "Person list \<Rightarrow> Tag \<Rightarrow> nat" where
  "usageCount people tag =
     length (filter (\<lambda>p. List.member (person_tagIds p) (tag_id tag)) people)"

definition countedTags :: "Person list \<Rightarrow> Tag list \<Rightarrow> (Tag \<times> nat) list" where
  "countedTags people tags = map (\<lambda>tag. (tag, usageCount people tag)) tags"

text \<open>\<open>tags.map(...).sort((a, b) => b.count - a.count).slice(0, 5)\<close>\<close>

definition rankedTags :: "Person list \<Rightarrow> Tag list \<Rightarrow> (Tag \<times> nat) list" where
  "rankedTags people tags =
     sort_cmp (\<lambda>a b. int (snd b) - int (snd a)) (countedTags people tags)"

definition topTags :: "Person list \<Rightarrow> Tag list \<Rightarrow> (Tag \<times> nat) list" where
  "topTags people tags = take 5 (rankedTags people tags)"

text \<open>
  The ranking the specification asks for: count descending, and among equal counts the
  earlier \<open>createdAt\<close> first.
\<close>

definition ranked_by_count_then_createdAt :: "(Tag \<times> nat) list \<Rightarrow> bool" where
  "ranked_by_count_then_createdAt xs =
     sorted_wrt (\<lambda>a b. snd b < snd a
        \<or> (snd a = snd b \<and> tag_createdAt (fst a) \<le> tag_createdAt (fst b))) xs"

section \<open>Permissions (hooks/usePermissions.ts)\<close>

text \<open>
  \<open>usePermissions\<close> reads \<open>userRole\<close> from the context and returns closures over it;
  the role is the argument here. \<open>['owner', 'admin', 'member'].includes(userRole)\<close> is
  list membership.
\<close>

definition canView :: "role \<Rightarrow> bool" where
  "canView userRole = True"

definition canEdit :: "role \<Rightarrow> bool" where
  "canEdit userRole = List.member [Owner, Admin, Member] userRole"

definition canDelete :: "role \<Rightarrow> bool" where
  "canDelete userRole = List.member [Owner, Admin, Member] userRole"

definition canManageSettings :: "role \<Rightarrow> bool" where
  "canManageSettings userRole = List.member [Owner, Admin] userRole"

definition canViewStaffOnly :: "role \<Rightarrow> bool" where
  "canViewStaffOnly userRole = List.member [Owner, Admin, Member] userRole"

definition canManageOrganization :: "role \<Rightarrow> bool" where
  "canManageOrganization userRole = (userRole = Owner)"

section \<open>The record store behind the entity classes\<close>

text \<open>
  The pages call \<open>Person.update\<close>, \<open>Tag.update\<close>, \<open>Household.update\<close>,
  \<open>HouseholdMember.create\<close> and \<open>HouseholdMember.update\<close> of \<open>entities/*\<close>, which
  are not among the sources. The store holds the rows of each collection. The last
  component is the list of outcomes of the coming calls: a call may answer normally,
  answer \<open>success = false\<close> for an internal error, or raise (the pages wrap their calls
  in \<open>try/catch\<close>); the empty list means that every coming call answers normally.
\<close>

datatype call_outcome = Proceeds | Fails | Throws

record backend =
  db_people :: "Person list"
  db_tags :: "Tag list"
  db_households :: "Household list"
  db_members :: "HouseholdMember list"
  faults :: "call_outcome list"

datatype api_error = ValidationError | ReferenceError | ConflictError | InternalError

text \<open>What an awaited call gives the page: the envelope's \<open>success\<close> flag, or an exception.\<close>

datatype call_result = Succeeded | Failed api_error | Threw

definition take_fault :: "backend \<Rightarrow> call_outcome \<times> backend" where
  "take_fault s =
     (case faults s of [] \<Rightarrow> (Proceeds, s) | f # fs \<Rightarrow> (f, s\<lparr>faults := fs\<rparr>))"

text \<open>
  Modelled from the spec: the entity classes are missing. Section 6: every operation
  returns the envelope \<open>{ success, message, data }\<close>, validation, reference and conflict
  errors are \<open>success = false\<close>, and an unexpected internal error is a \<open>success = false\<close>
  of its own; a failed call changes nothing.
\<close>

definition backend_call ::
  "(backend \<Rightarrow> api_error + backend) \<Rightarrow> backend \<Rightarrow> call_result \<times> backend" where
  "backend_call write s =
     (case take_fault s of
        (Throws, s') \<Rightarrow> (Threw, s')
      | (Fails, s') \<Rightarrow> (Failed InternalError, s')
      | (Proceeds, s') \<Rightarrow>
          (case write s' of Inl e \<Rightarrow> (Failed e, s') | Inr s'' \<Rightarrow> (Succeeded, s'')))"

text \<open>
  The attributes the pages below supply to \<open>Person.update\<close>: \<open>{ tagIds }\<close>,
  \<open>{ householdId }\<close> (\<open>null\<close> is \<open>None\<close>) and \<open>{ status }\<close>.
\<close>

datatype person_patch =
  Patch_tagIds "ident list" | Patch_householdId "ident option" | Patch_status person_status

fun merge_person :: "person_patch \<Rightarrow> Person \<Rightarrow> Person" where
  "merge_person (Patch_tagIds ids) p = p\<lparr>person_tagIds := ids\<rparr>"
| "merge_person (Patch_householdId h) p = p\<lparr>person_householdId := h\<rparr>"
| "merge_person (Patch_status st) p = p\<lparr>person_status := st\<rparr>"

definition live_tag :: "Tag list \<Rightarrow> ident \<Rightarrow> bool" where
  "live_tag ts i = list_ex (\<lambda>t. tag_id t = i \<and> \<not> tag_archived t) ts"

fun patch_accepted :: "backend \<Rightarrow> person_patch \<Rightarrow> bool" where
  "patch_accepted s (Patch_tagIds ids) = list_all (live_tag (db_tags s)) ids"
| "patch_accepted s (Patch_householdId h) = True"
| "patch_accepted s (Patch_status st) = True"

text \<open>
  Modelled from the spec: \<open>entities/Person\<close> is missing. Section 4.2: update is a
  partial merge (only the supplied attributes change); \<open>tagIds\<close> must reference
  existing, non-archived tags, unknown ids fail with \<open>ReferenceError\<close>; no check is
  named for \<open>householdId\<close> or \<open>status\<close>. Section 7: an id that does not resolve is a
  \<open>ReferenceError\<close>. Every row carrying the id is merged.
\<close>

definition Person_update_write ::
  "ident \<Rightarrow> person_patch \<Rightarrow> backend \<Rightarrow> api_error + backend" where
  "Person_update_write pid patch s =
     (if \<not> list_ex (\<lambda>p. person_id p = pid) (db_people s) then Inl ReferenceError
      else if \<not> patch_accepted s patch then Inl ReferenceError
      else Inr (s\<lparr>db_people :=
             map (\<lambda>p. if person_id p = pid then merge_person patch p else p) (db_people s)\<rparr>))"

definition Person_update :: "ident \<Rightarrow> person_patch \<Rightarrow> backend \<Rightarrow> call_result \<times> backend" where
  "Person_update pid patch = backend_call (Person_update_write pid patch)"

text \<open>
  Modelled from the spec: \<open>entities/Tag\<close> is missing. The one attribute the pages below
  supply to \<open>Tag.update\<close> is \<open>{ archived }\<close>; partial merge as in section 4.2.
\<close>

definition Tag_update_write :: "ident \<Rightarrow> bool \<Rightarrow> backend \<Rightarrow> api_error + backend" where
  "Tag_update_write tid a s =
     (if \<not> list_ex (\<lambda>t. tag_id t = tid) (db_tags s) then Inl ReferenceError
      else Inr (s\<lparr>db_tags :=
             map (\<lambda>t. if tag_id t = tid then t\<lparr>tag_archived := a\<rparr> else t) (db_tags s)\<rparr>))"

definition Tag_update :: "ident \<Rightarrow> bool \<Rightarrow> backend \<Rightarrow> call_result \<times> backend" where
  "Tag_update tid a = backend_call (Tag_update_write tid a)"

text \<open>
  Modelled from the spec: \<open>entities/Household\<close> is missing. \<open>Household.update\<close> with
  \<open>{ archived }\<close>, partial merge as in section 4.2.
\<close>

definition Household_update_write :: "ident \<Rightarrow> bool \<Rightarrow> backend \<Rightarrow> api_error + backend" where
  "Household_update_write hid a s =
     (if \<not> list_ex (\<lambda>h. household_id h = hid) (db_households s) then Inl ReferenceError
      else Inr (s\<lparr>db_households :=
             map (\<lambda>h. if household_id h = hid then h\<lparr>household_archived := a\<rparr> else h)
               (db_households s)\<rparr>))"

definition Household_update :: "ident \<Rightarrow> bool \<Rightarrow> backend \<Rightarrow> call_result \<times> backend" where
  "Household_update hid a = backend_call (Household_update_write hid a)"

text \<open>
  The attributes the pages below supply to \<open>HouseholdMember.update\<close>: \<open>{ archived }\<close>, or
  the form's \<open>{ personId, relationship, householdId }\<close>.
\<close>

datatype member_patch =
  Patch_member_archived bool | Patch_member_values ident relationship ident

fun merge_member :: "member_patch \<Rightarrow> HouseholdMember \<Rightarrow> HouseholdMember" where
  "merge_member (Patch_member_archived a) m = m\<lparr>member_archived := a\<rparr>"
| "merge_member (Patch_member_values personId rel hid) m =
     m\<lparr>member_personId := personId, member_relationship := rel, member_householdId := hid\<rparr>"

text \<open>
  Modelled from the spec: \<open>entities/HouseholdMember\<close> is missing. Update is the partial
  merge of section 4.2. Create appends a row with the given attributes; the new row's
  \<open>_id\<close> is chosen by the store and is an argument here.
\<close>

definition HouseholdMember_update_write ::
  "ident \<Rightarrow> member_patch \<Rightarrow> backend \<Rightarrow> api_error + backend" where
  "HouseholdMember_update_write mid patch s =
     (if \<not> list_ex (\<lambda>m. member_id m = mid) (db_members s) then Inl ReferenceError
      else Inr (s\<lparr>db_members :=
             map (\<lambda>m. if member_id m = mid then merge_member patch m else m) (db_members s)\<rparr>))"

definition HouseholdMember_update ::
  "ident \<Rightarrow> member_patch \<Rightarrow> backend \<Rightarrow> call_result \<times> backend" where
  "HouseholdMember_update mid patch = backend_call (HouseholdMember_update_write mid patch)"

definition HouseholdMember_create_write ::
  "ident \<Rightarrow> ident \<Rightarrow> relationship \<Rightarrow> ident \<Rightarrow> backend \<Rightarrow> api_error + backend" where
  "HouseholdMember_create_write newId personId rel hid s =
     Inr (s\<lparr>db_members := db_members s @
            [\<lparr>member_id = newId, member_householdId = hid, member_personId = personId,
              member_relationship = rel, member_archived = False\<rparr>]\<rparr>)"

definition HouseholdMember_create ::
  "ident \<Rightarrow> ident \<Rightarrow> relationship \<Rightarrow> ident \<Rightarrow> backend \<Rightarrow> call_result \<times> backend" where
  "HouseholdMember_create newId personId rel hid =
     backend_call (HouseholdMember_create_write newId personId rel hid)"

section \<open>The pages' operations\<close>

text \<open>
  What the page shows the user after a handler ran: \<open>message.success\<close>,
  \<open>message.error\<close>, or nothing. After a success the handlers call \<open>loadData()\<close>, which
  re-reads the lists into the component's state and writes nothing; it is left out.
\<close>

datatype ui_message = Msg_none | Msg_success | Msg_error

subsection \<open>Tags.deleteTag\<close>

text \<open>
  \<open>for (const person of peopleWithTag) { await Person.update(person._id, { tagIds:
  person.tagIds.filter(tagId => tagId !== tag._id) }) }\<close>. The response is not looked at;
  an exception leaves the loop for the \<open>catch\<close> (the result \<open>True\<close>).
\<close>

fun removeTagFromPeople :: "ident \<Rightarrow> Person list \<Rightarrow> backend \<Rightarrow> bool \<times> backend" where
  "removeTagFromPeople tid [] s = (False, s)"
| "removeTagFromPeople tid (person # rest) s =
     (case Person_update (person_id person)
             (Patch_tagIds (filter (\<lambda>tagId. tagId \<noteq> tid) (person_tagIds person))) s of
        (Threw, s') \<Rightarrow> (True, s')
      | (_, s') \<Rightarrow> removeTagFromPeople tid rest s')"

text \<open>\<open>people.filter(person => person.tagIds.includes(tag._id))\<close>; \<open>people\<close> is the
  component's state, what \<open>Person.list()\<close> returned at the last \<open>loadData\<close>.\<close>

definition peopleWithTag :: "Tag \<Rightarrow> Person list \<Rightarrow> Person list" where
  "peopleWithTag tag people =
     filter (\<lambda>person. List.member (person_tagIds person) (tag_id tag)) people"

definition deleteTag :: "Tag \<Rightarrow> Person list \<Rightarrow> backend \<Rightarrow> ui_message \<times> backend" where
  "deleteTag tag people s =
     (case removeTagFromPeople (tag_id tag) (peopleWithTag tag people) s of
        (True, s1) \<Rightarrow> (Msg_error, s1)
      | (False, s1) \<Rightarrow>
          (case Tag_update (tag_id tag) True s1 of
             (Threw, s2) \<Rightarrow> (Msg_error, s2)
           | (_, s2) \<Rightarrow> (Msg_success, s2)))"

subsection \<open>HouseholdDetail\<close>

text \<open>
  JavaScript's \<open>!x\<close> on an optional string: true for \<open>undefined\<close>, \<open>null\<close> and the empty
  string.
\<close>

definition falsy :: "ident option \<Rightarrow> bool" where
  "falsy x = (x = None \<or> x = Some [])"

text \<open>
  \<open>allPeople.filter(person => editingMember ? person._id === editingMember.personId ||
  !person.householdId : !person.householdId)\<close>: the people the member form offers.
\<close>

definition availablePeople :: "HouseholdMember option \<Rightarrow> Person list \<Rightarrow> Person list" where
  "availablePeople editingMember allPeople =
     filter (\<lambda>person.
        case editingMember of
          Some m \<Rightarrow> person_id person = member_personId m \<or> falsy (person_householdId person)
        | None \<Rightarrow> falsy (person_householdId person)) allPeople"

text \<open>
  \<open>handleAddEditMember(values)\<close>: \<open>id\<close> is the household of the route (\<open>routeId\<close>),
  \<open>editingMember\<close> the row being edited, if any. A response with \<open>success = false\<close> to
  the first call is thrown as an error; the response to \<open>Person.update\<close> is not looked
  at.
\<close>

definition handleAddEditMember ::
  "ident option \<Rightarrow> HouseholdMember option \<Rightarrow> ident \<Rightarrow> ident \<Rightarrow> relationship \<Rightarrow> backend
     \<Rightarrow> ui_message \<times> backend" where
  "handleAddEditMember routeId editingMember newId personId rel s =
     (if falsy routeId then (Msg_none, s)
      else
        (case (case editingMember of
                 Some m \<Rightarrow>
                   HouseholdMember_update (member_id m)
                     (Patch_member_values personId rel (the routeId)) s
               | None \<Rightarrow> HouseholdMember_create newId personId rel (the routeId) s) of
           (Threw, s1) \<Rightarrow> (Msg_error, s1)
         | (Failed e, s1) \<Rightarrow> (Msg_error, s1)
         | (Succeeded, s1) \<Rightarrow>
             (case Person_update personId (Patch_householdId routeId) s1 of
                (Threw, s2) \<Rightarrow> (Msg_error, s2)
              | (_, s2) \<Rightarrow> (Msg_success, s2))))"

text \<open>
  \<open>handleRemoveMember(member)\<close>: \<open>Modal.confirm\<close>, and in \<open>onOk\<close> the two writes.
  \<open>confirmed\<close> says whether the user pressed Remove. Neither response is looked at.
\<close>

definition handleRemoveMember ::
  "bool \<Rightarrow> HouseholdMember \<Rightarrow> backend \<Rightarrow> ui_message \<times> backend" where
  "handleRemoveMember confirmed member s =
     (if \<not> confirmed then (Msg_none, s)
      else
        (case HouseholdMember_update (member_id member) (Patch_member_archived True) s of
           (Threw, s1) \<Rightarrow> (Msg_error, s1)
         | (_, s1) \<Rightarrow>
             (case Person_update (member_personId member) (Patch_householdId None) s1 of
                (Threw, s2) \<Rightarrow> (Msg_error, s2)
              | (_, s2) \<Rightarrow> (Msg_success, s2))))"

subsection \<open>HouseholdList.handleDelete\<close>

text \<open>
  \<open>Modal.confirm\<close> with the content ``... This will remove all household member
  associations.'', and in \<open>onOk\<close>: \<open>Household.update(household._id, { archived: true })\<close>,
  an error thrown when the response has \<open>success = false\<close>.
\<close>

definition handleDelete :: "bool \<Rightarrow> Household \<Rightarrow> backend \<Rightarrow> ui_message \<times> backend" where
  "handleDelete confirmed household s =
     (if \<not> confirmed then (Msg_none, s)
      else
        (case Household_update (household_id household) True s of
           (Threw, s1) \<Rightarrow> (Msg_error, s1)
         | (Failed e, s1) \<Rightarrow> (Msg_error, s1)
         | (Succeeded, s1) \<Rightarrow> (Msg_success, s1)))"

section \<open>Describing the cascade of \<open>deleteTag\<close>\<close>

text \<open>A person without one tag id, and a tag row after \<open>{ archived: true }\<close> was
  written to the tag of that id.\<close>

definition without_tag :: "ident \<Rightarrow> Person \<Rightarrow> Person" where
  "without_tag tid p = p\<lparr>person_tagIds := filter (\<lambda>tagId. tagId \<noteq> tid) (person_tagIds p)\<rparr>"

definition archive_tag :: "ident \<Rightarrow> Tag \<Rightarrow> Tag" where
  "archive_tag tid t = (if tag_id t = tid then t\<lparr>tag_archived := True\<rparr> else t)"


section \<open>Describing the household writes\<close>

text \<open>The rows after a write to the row of one id.\<close>

definition archive_member :: "ident \<Rightarrow> HouseholdMember \<Rightarrow> HouseholdMember" where
  "archive_member mid m = (if member_id m = mid then m\<lparr>member_archived := True\<rparr> else m)"

definition set_household :: "ident \<Rightarrow> ident option \<Rightarrow> Person \<Rightarrow> Person" where
  "set_household pid h p = (if person_id p = pid then p\<lparr>person_householdId := h\<rparr> else p)"

definition archive_household :: "ident \<Rightarrow> Household \<Rightarrow> Household" where
  "archive_household hid h =
     (if household_id h = hid then h\<lparr>household_archived := True\<rparr> else h)"

definition new_member :: "ident \<Rightarrow> ident \<Rightarrow> relationship \<Rightarrow> ident \<Rightarrow> HouseholdMember" where
  "new_member newId personId rel hid =
     \<lparr>member_id = newId, member_householdId = hid, member_personId = personId,
      member_relationship = rel, member_archived = False\<rparr>"

section \<open>Referential integrity\<close>

text \<open>
  The invariant of the specification. A person's \<open>householdId\<close> and the active
  (non-archived) member rows agree: when it is set to \<open>h\<close>, exactly one active row has
  this person and \<open>h\<close>; when it is unset, no active row has this person.
\<close>

definition household_agrees :: "backend \<Rightarrow> bool" where
  "household_agrees s =
     list_all (\<lambda>p.
        case person_householdId p of
          Some h \<Rightarrow>
            length (filter (\<lambda>m. \<not> member_archived m \<and> member_personId m = person_id p
                                \<and> member_householdId m = h) (db_members s)) = 1
        | None \<Rightarrow>
            filter (\<lambda>m. \<not> member_archived m \<and> member_personId m = person_id p)
              (db_members s) = [])
       (db_people s)"

definition live_household :: "Household list \<Rightarrow> ident \<Rightarrow> bool" where
  "live_household hs i = list_ex (\<lambda>h. household_id h = i \<and> \<not> household_archived h) hs"

text \<open>
  No dangling reference: every tag id of a person is a live tag, a person's
  \<open>householdId\<close> is unset or a live household, and an active member row names a live
  household and an existing person.
\<close>

definition no_dangling :: "backend \<Rightarrow> bool" where
  "no_dangling s =
     (list_all (\<lambda>p. list_all (live_tag (db_tags s)) (person_tagIds p)
                  \<and> (case person_householdId p of
                        None \<Rightarrow> True
                      | Some h \<Rightarrow> live_household (db_households s) h))
        (db_people s)
      \<and> list_all (\<lambda>m. member_archived m
                  \<or> (live_household (db_households s) (member_householdId m)
                      \<and> list_ex (\<lambda>p. person_id p = member_personId m) (db_people s)))
          (db_members s))"

definition integrity :: "backend \<Rightarrow> bool" where
  "integrity s = (household_agrees s \<and> no_dangling s)"

section \<open>Example data\<close>

text \<open>The scenario of the specification: the tag ``Volunteer'' used by three people.\<close>

definition volunteer :: Tag where
  "volunteer = \<lparr>tag_id = ''t1'', tag_name = ''Volunteer'', tag_createdAt = 1, tag_archived = False\<rparr>"

definition usher :: Tag where
  "usher = \<lparr>tag_id = ''t2'', tag_name = ''Usher'', tag_createdAt = 2, tag_archived = False\<rparr>"

definition tagged_person :: "ident \<Rightarrow> ident list \<Rightarrow> Person" where
  "tagged_person pid ids =
     \<lparr>person_id = pid, person_status = Active, person_householdId = None,
      person_tagIds = ids, person_createdAt = 0\<rparr>"

definition volunteer_store :: backend where
  "volunteer_store =
     \<lparr>db_people = [tagged_person ''p1'' [''t1''], tagged_person ''p2'' [''t1'', ''t2''],
                   tagged_person ''p3'' [''t2'', ''t1''], tagged_person ''p4'' [''t2'']],
      db_tags = [volunteer, usher], db_households = [], db_members = [], faults = []\<rparr>"

definition staff_note :: Note where
  "staff_note = \<lparr>note_id = ''n1'', note_personId = ''p1'', note_body = ''pastoral visit'',
     note_visibility = Note_staff_only, note_createdAt = 5\<rparr>"

definition field_second :: ProfileFieldDef where
  "field_second = \<lparr>field_key = ''shirt_size'', field_visibility = Public,
     field_archived = False, field_orderIndex = 1\<rparr>"

definition field_first :: ProfileFieldDef where
  "field_first = \<lparr>field_key = ''birthday'', field_visibility = Public,
     field_archived = False, field_orderIndex = 0\<rparr>"

definition tag_later :: Tag where
  "tag_later = \<lparr>tag_id = ''b'', tag_name = ''B'', tag_createdAt = 2, tag_archived = False\<rparr>"

definition tag_earlier :: Tag where
  "tag_earlier = \<lparr>tag_id = ''a'', tag_name = ''A'', tag_createdAt = 1, tag_archived = False\<rparr>"

text \<open>A household with one member, a second, empty household, and a person in no household.\<close>

definition smiths :: Household where
  "smiths = \<lparr>household_id = ''h1'', household_name = ''Smith'', household_archived = False\<rparr>"

definition joneses :: Household where
  "joneses = \<lparr>household_id = ''h2'', household_name = ''Jones'', household_archived = False\<rparr>"

definition john :: Person where
  "john = \<lparr>person_id = ''p1'', person_status = Active, person_householdId = Some ''h1'',
     person_tagIds = [], person_createdAt = 0\<rparr>"

definition mary :: Person where
  "mary = \<lparr>person_id = ''p2'', person_status = Visitor, person_householdId = None,
     person_tagIds = [], person_createdAt = 0\<rparr>"

definition john_row :: HouseholdMember where
  "john_row = \<lparr>member_id = ''m1'', member_householdId = ''h1'', member_personId = ''p1'',
     member_relationship = Head, member_archived = False\<rparr>"

definition household_store :: backend where
  "household_store =
     \<lparr>db_people = [john, mary], db_tags = [], db_households = [smiths, joneses],
      db_members = [john_row], faults = []\<rparr>"

section \<open>The store's calls, with and without a pending fault\<close>

lemma backend_call_no_fault:
  "faults s = [] \<Longrightarrow>
   backend_call w s = (case w s of Inl e \<Rightarrow> (Failed e, s) | Inr s' \<Rightarrow> (Succeeded, s'))"
  by (simp add: backend_call_def take_fault_def)

lemma map_id_when_absent:
  "\<not> list_ex (\<lambda>x. key x = k) xs \<Longrightarrow> map (\<lambda>x. if key x = k then g x else x) xs = xs"
  by (induction xs) (simp_all)

lemma Person_update_no_fault:
  assumes "faults s = []"
  shows "Person_update pid patch s =
    (if list_ex (\<lambda>p. person_id p = pid) (db_people s) \<and> patch_accepted s patch
     then (Succeeded, s\<lparr>db_people :=
             map (\<lambda>p. if person_id p = pid then merge_person patch p else p) (db_people s)\<rparr>)
     else (Failed ReferenceError, s))"
  using assms by (simp add: Person_update_def backend_call_no_fault Person_update_write_def)

lemma member_set [simp]: "List.member xs x = (x \<in> set xs)"
  by (induction xs) auto

lemma patch_accepted_people [simp]:
  "patch_accepted (s\<lparr>db_people := ppl\<rparr>) patch = patch_accepted s patch"
  by (cases patch) simp_all

lemma Tag_update_no_fault:
  assumes "faults s = []"
  shows "\<exists>res. Tag_update tid True s = (res, s\<lparr>db_tags := map (archive_tag tid) (db_tags s)\<rparr>)
     \<and> res \<noteq> Threw"
proof (cases "list_ex (\<lambda>t. tag_id t = tid) (db_tags s)")
  case True
  have "map (\<lambda>t. if tag_id t = tid then t\<lparr>tag_archived := True\<rparr> else t) (db_tags s)
      = map (archive_tag tid) (db_tags s)"
    by (simp add: archive_tag_def [abs_def])
  with True assms show ?thesis
    by (simp add: Tag_update_def backend_call_no_fault Tag_update_write_def)
next
  case False
  then have "map (\<lambda>t. if tag_id t = tid then t\<lparr>tag_archived := True\<rparr> else t) (db_tags s) = db_tags s"
    by (rule map_id_when_absent)
  then have "map (archive_tag tid) (db_tags s) = db_tags s"
    by (simp add: archive_tag_def [abs_def])
  with False assms show ?thesis
    by (simp add: Tag_update_def backend_call_no_fault Tag_update_write_def)
qed

lemma backend_call_fault:
  "faults s = f # fs \<Longrightarrow> f \<noteq> Proceeds \<Longrightarrow>
   backend_call w s = (if f = Throws then Threw else Failed InternalError, s\<lparr>faults := fs\<rparr>)"
  by (cases f) (simp_all add: backend_call_def take_fault_def)

lemma backend_call_proceeds:
  "faults s = Proceeds # fs \<Longrightarrow>
   backend_call w s =
     (case w (s\<lparr>faults := fs\<rparr>) of
        Inl e \<Rightarrow> (Failed e, s\<lparr>faults := fs\<rparr>) | Inr s' \<Rightarrow> (Succeeded, s'))"
  by (simp add: backend_call_def take_fault_def)

lemma Person_update_householdId_written:
  "Person_update_write pid (Patch_householdId h) s = Inr s' \<Longrightarrow>
     s' = s\<lparr>db_people := map (set_household pid h) (db_people s)\<rparr>"
  by (auto simp: Person_update_write_def set_household_def [abs_def] split: if_splits)

lemma Person_update_householdId_refused:
  "Person_update_write pid (Patch_householdId h) s = Inl e \<Longrightarrow>
     map (set_household pid h) (db_people s) = db_people s"
  by (auto simp: Person_update_write_def set_household_def [abs_def] map_id_when_absent
      split: if_splits)

lemma Person_update_householdId_no_fault:
  assumes "faults s = []"
  shows "\<exists>res. Person_update pid (Patch_householdId h) s =
           (res, s\<lparr>db_people := map (set_household pid h) (db_people s)\<rparr>) \<and> res \<noteq> Threw"
proof (cases "Person_update_write pid (Patch_householdId h) s")
  case (Inl e)
  from Person_update_householdId_refused [OF this] Inl assms show ?thesis
    by (simp add: Person_update_def backend_call_no_fault)
next
  case (Inr s')
  from Person_update_householdId_written [OF this] Inr assms show ?thesis
    by (simp add: Person_update_def backend_call_no_fault)
qed

lemma HouseholdMember_archive_write:
  "HouseholdMember_update_write mid (Patch_member_archived True) s =
     (if list_ex (\<lambda>m. member_id m = mid) (db_members s)
      then Inr (s\<lparr>db_members := map (archive_member mid) (db_members s)\<rparr>)
      else Inl ReferenceError)"
  by (simp add: HouseholdMember_update_write_def archive_member_def [abs_def])

lemma archive_member_absent:
  "\<not> list_ex (\<lambda>m. member_id m = mid) ms \<Longrightarrow> map (archive_member mid) ms = ms"
  by (simp add: archive_member_def [abs_def] map_id_when_absent)

lemma HouseholdMember_archive_no_fault:
  assumes "faults s = []"
  shows "\<exists>res. HouseholdMember_update mid (Patch_member_archived True) s =
           (res, s\<lparr>db_members := map (archive_member mid) (db_members s)\<rparr>) \<and> res \<noteq> Threw"
  using assms
  by (simp add: HouseholdMember_update_def backend_call_no_fault HouseholdMember_archive_write
      archive_member_absent)

lemma HouseholdMember_archive_proceeds:
  assumes "faults s = Proceeds # fs"
  shows "\<exists>res. HouseholdMember_update mid (Patch_member_archived True) s =
           (res, s\<lparr>db_members := map (archive_member mid) (db_members s), faults := fs\<rparr>)
         \<and> res \<noteq> Threw"
  using assms
  by (simp add: HouseholdMember_update_def backend_call_proceeds HouseholdMember_archive_write
      archive_member_absent)

lemma HouseholdMember_create_no_fault:
  "faults s = [] \<Longrightarrow>
   HouseholdMember_create newId personId rel hid s =
     (Succeeded, s\<lparr>db_members := db_members s @ [new_member newId personId rel hid]\<rparr>)"
  by (simp add: HouseholdMember_create_def backend_call_no_fault
      HouseholdMember_create_write_def new_member_def)

lemma HouseholdMember_create_proceeds:
  "faults s = Proceeds # fs \<Longrightarrow>
   HouseholdMember_create newId personId rel hid s =
     (Succeeded,
      s\<lparr>db_members := db_members s @ [new_member newId personId rel hid], faults := fs\<rparr>)"
  by (simp add: HouseholdMember_create_def backend_call_proceeds
      HouseholdMember_create_write_def new_member_def)

lemma Household_archive_write:
  "Household_update_write hid True s =
     (if list_ex (\<lambda>h. household_id h = hid) (db_households s)
      then Inr (s\<lparr>db_households := map (archive_household hid) (db_households s)\<rparr>)
      else Inl ReferenceError)"
  by (simp add: Household_update_write_def archive_household_def [abs_def])

section \<open>Archiving a tag\<close>

lemma untag_step:
  assumes nf: "faults s = []"
    and acc: "patch_accepted s (Patch_tagIds (filter (\<lambda>i. i \<noteq> tid) (person_tagIds r)))"
    and same: "\<forall>q\<in>set (db_people s). person_id q = person_id r \<longrightarrow>
        filter (\<lambda>i. i \<noteq> tid) (person_tagIds q) = filter (\<lambda>i. i \<noteq> tid) (person_tagIds r)"
  shows "\<exists>res. Person_update (person_id r)
           (Patch_tagIds (filter (\<lambda>i. i \<noteq> tid) (person_tagIds r))) s =
         (res, s\<lparr>db_people := map (\<lambda>q. if person_id q = person_id r then without_tag tid q else q)
              (db_people s)\<rparr>) \<and> res \<noteq> Threw"
proof (cases "list_ex (\<lambda>p. person_id p = person_id r) (db_people s)")
  case True
  have "map (\<lambda>p. if person_id p = person_id r
            then merge_person (Patch_tagIds (filter (\<lambda>i. i \<noteq> tid) (person_tagIds r))) p else p) (db_people s)
      = map (\<lambda>q. if person_id q = person_id r then without_tag tid q else q) (db_people s)"
    using same by (intro map_cong) (auto simp: without_tag_def)
  then show ?thesis using True acc nf by (simp add: Person_update_no_fault)
next
  case False
  then have "map (\<lambda>q. if person_id q = person_id r then without_tag tid q else q) (db_people s) = db_people s"
    by (rule map_id_when_absent)
  then show ?thesis using False nf by (simp add: Person_update_no_fault)
qed

lemma removeTagFromPeople_no_fault:
  assumes "faults s = []"
    and "\<forall>r\<in>set ps. patch_accepted s (Patch_tagIds (filter (\<lambda>i. i \<noteq> tid) (person_tagIds r)))"
    and "\<forall>r\<in>set ps. \<forall>q\<in>set (db_people s). person_id q = person_id r \<longrightarrow>
        filter (\<lambda>i. i \<noteq> tid) (person_tagIds q) = filter (\<lambda>i. i \<noteq> tid) (person_tagIds r)"
  shows "removeTagFromPeople tid ps s =
    (False, s\<lparr>db_people := map (\<lambda>q. if person_id q \<in> person_id ` set ps then without_tag tid q else q)
        (db_people s)\<rparr>)"
  using assms
proof (induction ps arbitrary: s)
  case Nil
  then show ?case by simp
next
  case (Cons r ps)
  let ?s1 = "s\<lparr>db_people := map (\<lambda>q. if person_id q = person_id r then without_tag tid q else q)
              (db_people s)\<rparr>"
  obtain res where step: "Person_update (person_id r)
           (Patch_tagIds (filter (\<lambda>i. i \<noteq> tid) (person_tagIds r))) s = (res, ?s1)" and nt: "res \<noteq> Threw"
    using untag_step [of s tid r] Cons.prems by auto
  have nf1: "faults ?s1 = []" using Cons.prems by simp
  have acc1: "\<forall>x\<in>set ps. patch_accepted ?s1 (Patch_tagIds (filter (\<lambda>i. i \<noteq> tid) (person_tagIds x)))"
    using Cons.prems(2) by simp
  have same1: "\<forall>x\<in>set ps. \<forall>q\<in>set (db_people ?s1). person_id q = person_id x \<longrightarrow>
        filter (\<lambda>i. i \<noteq> tid) (person_tagIds q) = filter (\<lambda>i. i \<noteq> tid) (person_tagIds x)"
    using Cons.prems(3) by (auto simp: without_tag_def)
  have ih: "removeTagFromPeople tid ps ?s1 =
    (False, ?s1\<lparr>db_people := map (\<lambda>q. if person_id q \<in> person_id ` set ps then without_tag tid q else q)
        (db_people ?s1)\<rparr>)"
    by (rule Cons.IH [OF nf1 acc1 same1])
  have idem: "\<And>q. without_tag tid (without_tag tid q) = without_tag tid q"
    by (simp add: without_tag_def)
  have "map (\<lambda>q. if person_id q \<in> person_id ` set ps then without_tag tid q else q) (db_people ?s1)
      = map (\<lambda>q. if person_id q \<in> person_id ` set (r # ps) then without_tag tid q else q) (db_people s)"
    by (auto simp: idem without_tag_def)
  with ih step nt show ?case by (cases res) simp_all
qed

lemma deleteTag_after_loop:
  assumes "removeTagFromPeople (tag_id tag) (peopleWithTag tag ps) s = (False, s1)"
    and "faults s1 = []"
  shows "deleteTag tag ps s = (Msg_success, s1\<lparr>db_tags := map (archive_tag (tag_id tag)) (db_tags s1)\<rparr>)"
proof -
  obtain res where "Tag_update (tag_id tag) True s1 =
      (res, s1\<lparr>db_tags := map (archive_tag (tag_id tag)) (db_tags s1)\<rparr>)" and "res \<noteq> Threw"
    using Tag_update_no_fault [OF assms(2)] by blast
  then show ?thesis using assms(1) by (cases res) (simp_all add: deleteTag_def)
qed

text \<open>
  The run in which nothing goes wrong: the store has no fault pending, person ids are
  unique, \<open>people\<close> is the store's current list, and the store accepts each write of
  the cascade (the other tag ids of the people concerned are live). Then the loop ends
  in the store in which every person has lost exactly this tag id and the tags are
  untouched; \<open>deleteTag\<close> archives the tag in that store and reports success; the usage
  count of the tag is then zero.
\<close>

lemma deleteTag_cascade:
  assumes nf: "faults s = []"
    and ids: "distinct (map person_id (db_people s))"
    and acc: "list_all (\<lambda>p. patch_accepted s
                 (Patch_tagIds (filter (\<lambda>tagId. tagId \<noteq> tag_id tag) (person_tagIds p))))
               (peopleWithTag tag (db_people s))"
  shows "removeTagFromPeople (tag_id tag) (peopleWithTag tag (db_people s)) s =
           (False, s\<lparr>db_people := map (without_tag (tag_id tag)) (db_people s)\<rparr>)
       \<and> deleteTag tag (db_people s) s =
           (Msg_success, s\<lparr>db_people := map (without_tag (tag_id tag)) (db_people s),
                            db_tags := map (archive_tag (tag_id tag)) (db_tags s)\<rparr>)
       \<and> usageCount (map (without_tag (tag_id tag)) (db_people s)) tag = 0"
proof -
  let ?tid = "tag_id tag"
  let ?ps = "peopleWithTag tag (db_people s)"
  have acc': "\<forall>r\<in>set ?ps. patch_accepted s
      (Patch_tagIds (filter (\<lambda>i. i \<noteq> ?tid) (person_tagIds r)))"
    using acc by (simp add: list_all_iff)
  have same: "\<forall>r\<in>set ?ps. \<forall>q\<in>set (db_people s). person_id q = person_id r \<longrightarrow>
      filter (\<lambda>i. i \<noteq> ?tid) (person_tagIds q) = filter (\<lambda>i. i \<noteq> ?tid) (person_tagIds r)"
  proof (intro ballI impI)
    fix r q assume "r \<in> set ?ps" "q \<in> set (db_people s)" "person_id q = person_id r"
    then have "q = r" using ids
      by (auto simp: peopleWithTag_def dest: inj_on_eq_iff [OF iffD1 [OF distinct_map, THEN conjunct2]])
    then show "filter (\<lambda>i. i \<noteq> ?tid) (person_tagIds q) = filter (\<lambda>i. i \<noteq> ?tid) (person_tagIds r)"
      by simp
  qed
  have all: "map (\<lambda>q. if person_id q \<in> person_id ` set ?ps then without_tag ?tid q else q) (db_people s)
      = map (without_tag ?tid) (db_people s)"
  proof (intro map_cong refl)
    fix q assume q: "q \<in> set (db_people s)"
    show "(if person_id q \<in> person_id ` set ?ps then without_tag ?tid q else q) = without_tag ?tid q"
    proof (cases "?tid \<in> set (person_tagIds q)")
      case True
      with q have "q \<in> set ?ps" by (simp add: peopleWithTag_def)
      then show ?thesis by auto
    next
      case False
      then have "filter (\<lambda>i. i \<noteq> ?tid) (person_tagIds q) = person_tagIds q"
        by (auto simp: filter_id_conv)
      then show ?thesis by (simp add: without_tag_def)
    qed
  qed
  have loop: "removeTagFromPeople ?tid ?ps s =
      (False, s\<lparr>db_people := map (without_tag ?tid) (db_people s)\<rparr>)"
    using removeTagFromPeople_no_fault [OF nf acc' same] all by simp
  have del: "deleteTag tag (db_people s) s =
      (Msg_success, s\<lparr>db_people := map (without_tag ?tid) (db_people s),
                       db_tags := map (archive_tag ?tid) (db_tags s)\<rparr>)"
    using deleteTag_after_loop [OF loop] nf by simp
  have "usageCount (map (without_tag ?tid) (db_people s)) tag = 0"
    by (simp add: usageCount_def without_tag_def)
  with loop del show ?thesis by simp
qed

lemma deleteTag_cascade_volunteers:
  "faults volunteer_store = []
   \<and> distinct (map person_id (db_people volunteer_store))
   \<and> usageCount (db_people volunteer_store) volunteer = 3
   \<and> deleteTag volunteer (db_people volunteer_store) volunteer_store =
       (Msg_success,
        \<lparr>db_people = [tagged_person ''p1'' [], tagged_person ''p2'' [''t2''],
                      tagged_person ''p3'' [''t2''], tagged_person ''p4'' [''t2'']],
         db_tags = [volunteer\<lparr>tag_archived := True\<rparr>, usher], db_households = [],
         db_members = [], faults = []\<rparr>)"
proof -
  have nf: "faults volunteer_store = []"
    by (simp add: volunteer_store_def)
  have ids: "distinct (map person_id (db_people volunteer_store))"
    by (simp add: volunteer_store_def tagged_person_def)
  have acc: "list_all (\<lambda>p. patch_accepted volunteer_store
                 (Patch_tagIds (filter (\<lambda>tagId. tagId \<noteq> tag_id volunteer) (person_tagIds p))))
               (peopleWithTag volunteer (db_people volunteer_store))"
    by (simp add: volunteer_store_def tagged_person_def peopleWithTag_def volunteer_def usher_def
        live_tag_def)
  have cnt: "usageCount (db_people volunteer_store) volunteer = 3"
    by (simp add: volunteer_store_def tagged_person_def usageCount_def volunteer_def)
  from deleteTag_cascade [OF nf ids acc] nf ids cnt show ?thesis
    by (simp add: volunteer_store_def tagged_person_def volunteer_def usher_def without_tag_def
        archive_tag_def)
qed

text \<open>
  The order of the writes: no call of the loop touches the tags, so when a
  \<open>Person.update\<close> throws, the handler ends with an error and the tag is not archived.
\<close>

lemma Person_update_keeps_tags:
  "db_tags (snd (Person_update pid patch s)) = db_tags s"
  by (simp add: Person_update_def backend_call_def take_fault_def Person_update_write_def
      split: list.splits call_outcome.splits)

lemma removeTagFromPeople_keeps_tags:
  "db_tags (snd (removeTagFromPeople tid ps s)) = db_tags s"
proof (induction ps arbitrary: s)
  case Nil
  show ?case by simp
next
  case (Cons r ps)
  obtain res s1 where step: "Person_update (person_id r)
      (Patch_tagIds (filter (\<lambda>tagId. tagId \<noteq> tid) (person_tagIds r))) s = (res, s1)"
    by (cases "Person_update (person_id r)
      (Patch_tagIds (filter (\<lambda>tagId. tagId \<noteq> tid) (person_tagIds r))) s")
  have "db_tags s1 = db_tags s"
    using Person_update_keeps_tags [of "person_id r"
        "Patch_tagIds (filter (\<lambda>tagId. tagId \<noteq> tid) (person_tagIds r))" s] step
    by simp
  with step Cons.IH [of s1] show ?case
    by (cases res) simp_all
qed

lemma deleteTag_aborted:
  assumes "fst (removeTagFromPeople (tag_id tag) (peopleWithTag tag people) s)"
  shows "fst (deleteTag tag people s) = Msg_error
     \<and> db_tags (snd (deleteTag tag people s)) = db_tags s"
proof -
  obtain s1 where loop: "removeTagFromPeople (tag_id tag) (peopleWithTag tag people) s = (True, s1)"
    using assms by (cases "removeTagFromPeople (tag_id tag) (peopleWithTag tag people) s") simp
  have "db_tags s1 = db_tags s"
    using removeTagFromPeople_keeps_tags [of "tag_id tag" "peopleWithTag tag people" s] loop
    by simp
  with loop show ?thesis by (simp add: deleteTag_def)
qed

text \<open>
  C2. Archiving a tag removes the tag id from the \<open>tagIds\<close> of every person referencing
  it before the tag itself is marked archived, and afterwards no person references the
  tag id. \<open>deleteTag\<close> does not look at the response of \<open>Person.update\<close>: the tag
  ``Volunteer'' is used by three people and the first update answers \<open>success = false\<close>;
  the loop goes on, the tag is archived, success is shown, and the first person still
  references the archived tag. (When the second update throws instead, the handler stops
  with an error and the tag is left as it was: the order of the writes is the claimed
  one.)
\<close>

theorem deleteTag_ignores_refused_update:
  "usageCount (db_people volunteer_store) volunteer = 3
   \<and> deleteTag volunteer (db_people volunteer_store) (volunteer_store\<lparr>faults := [Fails]\<rparr>) =
       (Msg_success,
        \<lparr>db_people = [tagged_person ''p1'' [''t1''], tagged_person ''p2'' [''t2''],
                      tagged_person ''p3'' [''t2''], tagged_person ''p4'' [''t2'']],
         db_tags = [volunteer\<lparr>tag_archived := True\<rparr>, usher], db_households = [],
         db_members = [], faults = []\<rparr>)
   \<and> usageCount
         (db_people (snd (deleteTag volunteer (db_people volunteer_store)
                            (volunteer_store\<lparr>faults := [Fails]\<rparr>)))) volunteer = 1
   \<and> deleteTag volunteer (db_people volunteer_store)
         (volunteer_store\<lparr>faults := [Proceeds, Throws]\<rparr>) =
       (Msg_error,
        \<lparr>db_people = [tagged_person ''p1'' [], tagged_person ''p2'' [''t1'', ''t2''],
                      tagged_person ''p3'' [''t2'', ''t1''], tagged_person ''p4'' [''t2'']],
         db_tags = [volunteer, usher], db_households = [], db_members = [], faults = []\<rparr>)"
  by (simp add: deleteTag_def peopleWithTag_def usageCount_def volunteer_store_def
      tagged_person_def volunteer_def usher_def Person_update_def Tag_update_def
      backend_call_def take_fault_def Person_update_write_def Tag_update_write_def live_tag_def)










section \<open>Household membership\<close>

text \<open>
  C3, as amended. When no member is being edited, the member form offers only people
  whose \<open>householdId\<close> is unset (\<open>availablePeople\<close>); \<open>handleAddEditMember\<close> itself
  checks nothing and answers no conflict. For the household \<open>h\<close> of the route: when no
  call fails, the member row is created, then \<open>householdId = h\<close> is written to the
  person, and success is shown; when the create call fails or throws, an error is shown
  and nothing is written; the two writes are separate calls, and when the second one
  fails or throws the new row stays.
\<close>

theorem handleAddEditMember_add:
  "(\<forall>p\<in>set (availablePeople None allPeople). falsy (person_householdId p))
   \<and> (h \<noteq> [] \<and> faults s = [] \<longrightarrow>
        handleAddEditMember (Some h) None newId personId rel s =
          (Msg_success,
           s\<lparr>db_members := db_members s @ [new_member newId personId rel h],
              db_people := map (set_household personId (Some h)) (db_people s)\<rparr>))
   \<and> (h \<noteq> [] \<and> faults s = f # fs \<and> f \<noteq> Proceeds \<longrightarrow>
        handleAddEditMember (Some h) None newId personId rel s = (Msg_error, s\<lparr>faults := fs\<rparr>))
   \<and> (h \<noteq> [] \<and> faults s = Proceeds # f # fs \<and> f \<noteq> Proceeds \<longrightarrow>
        snd (handleAddEditMember (Some h) None newId personId rel s) =
          s\<lparr>db_members := db_members s @ [new_member newId personId rel h], faults := fs\<rparr>)"
proof (intro conjI impI)
  show "\<forall>p\<in>set (availablePeople None allPeople). falsy (person_householdId p)"
    by (simp add: availablePeople_def)
next
  assume a: "h \<noteq> [] \<and> faults s = []"
  let ?s1 = "s\<lparr>db_members := db_members s @ [new_member newId personId rel h]\<rparr>"
  have 1: "HouseholdMember_create newId personId rel h s = (Succeeded, ?s1)"
    using a by (simp add: HouseholdMember_create_no_fault)
  have "faults ?s1 = []" using a by simp
  from Person_update_householdId_no_fault [OF this] obtain r2 where
    2: "Person_update personId (Patch_householdId (Some h)) ?s1
      = (r2, ?s1\<lparr>db_people := map (set_household personId (Some h)) (db_people ?s1)\<rparr>)"
    and n2: "r2 \<noteq> Threw"
    by blast
  from a 1 2 n2 show "handleAddEditMember (Some h) None newId personId rel s =
          (Msg_success,
           s\<lparr>db_members := db_members s @ [new_member newId personId rel h],
              db_people := map (set_household personId (Some h)) (db_people s)\<rparr>)"
    by (cases r2) (simp_all add: handleAddEditMember_def falsy_def)
next
  assume a: "h \<noteq> [] \<and> faults s = f # fs \<and> f \<noteq> Proceeds"
  then have "HouseholdMember_create newId personId rel h s =
      (if f = Throws then Threw else Failed InternalError, s\<lparr>faults := fs\<rparr>)"
    unfolding HouseholdMember_create_def by (intro backend_call_fault) simp_all
  with a show "handleAddEditMember (Some h) None newId personId rel s =
      (Msg_error, s\<lparr>faults := fs\<rparr>)"
    by (simp add: handleAddEditMember_def falsy_def)
next
  assume a: "h \<noteq> [] \<and> faults s = Proceeds # f # fs \<and> f \<noteq> Proceeds"
  let ?s1 = "s\<lparr>db_members := db_members s @ [new_member newId personId rel h],
               faults := f # fs\<rparr>"
  have 1: "HouseholdMember_create newId personId rel h s = (Succeeded, ?s1)"
    using a by (simp add: HouseholdMember_create_proceeds)
  have 2: "Person_update personId (Patch_householdId (Some h)) ?s1
      = (if f = Throws then Threw else Failed InternalError, ?s1\<lparr>faults := fs\<rparr>)"
    unfolding Person_update_def using a by (intro backend_call_fault) simp_all
  from a 1 2 show "snd (handleAddEditMember (Some h) None newId personId rel s) =
          s\<lparr>db_members := db_members s @ [new_member newId personId rel h], faults := fs\<rparr>"
    by (simp add: handleAddEditMember_def falsy_def)
qed


theorem handleAddEditMember_add_witness:
  "availablePeople None (db_people household_store) = [mary]
   \<and> falsy (person_householdId mary)
   \<and> faults household_store = []
   \<and> handleAddEditMember (Some ''h2'') None ''m2'' ''p2'' Spouse household_store =
       (Msg_success,
        \<lparr>db_people = [john, mary\<lparr>person_householdId := Some ''h2''\<rparr>], db_tags = [],
         db_households = [smiths, joneses],
         db_members = [john_row, new_member ''m2'' ''p2'' Spouse ''h2''], faults = []\<rparr>)
   \<and> handleAddEditMember (Some ''h2'') None ''m2'' ''p2'' Spouse
         (household_store\<lparr>faults := [Fails]\<rparr>) = (Msg_error, household_store)
   \<and> snd (handleAddEditMember (Some ''h2'') None ''m2'' ''p2'' Spouse
         (household_store\<lparr>faults := [Proceeds, Throws]\<rparr>)) =
       household_store\<lparr>db_members := [john_row, new_member ''m2'' ''p2'' Spouse ''h2'']\<rparr>"
proof -
  have av: "availablePeople None (db_people household_store) = [mary]"
    by (simp add: availablePeople_def household_store_def john_def mary_def falsy_def)
  have nf: "''h2'' \<noteq> [] \<and> faults household_store = []"
    by (simp add: household_store_def)
  have all: "\<forall>p\<in>set (availablePeople None (db_people household_store)).
        falsy (person_householdId p)" and
    add: "handleAddEditMember (Some ''h2'') None ''m2'' ''p2'' Spouse household_store =
          (Msg_success,
           household_store\<lparr>db_members :=
               db_members household_store @ [new_member ''m2'' ''p2'' Spouse ''h2''],
             db_people := map (set_household ''p2'' (Some ''h2'')) (db_people household_store)\<rparr>)"
    using nf handleAddEditMember_add [of "db_people household_store" "''h2''" household_store
        "''m2''" "''p2''" Spouse]
    by blast+
  have "''h2'' \<noteq> [] \<and> faults (household_store\<lparr>faults := [Fails]\<rparr>) = Fails # []
      \<and> Fails \<noteq> Proceeds"
    by simp
  with handleAddEditMember_add [of "[]" "''h2''" "household_store\<lparr>faults := [Fails]\<rparr>"
      "''m2''" "''p2''" Spouse Fails "[]"]
  have 2: "handleAddEditMember (Some ''h2'') None ''m2'' ''p2'' Spouse
         (household_store\<lparr>faults := [Fails]\<rparr>) =
       (Msg_error, household_store\<lparr>faults := [Fails], faults := []\<rparr>)"
    by blast
  have "''h2'' \<noteq> [] \<and> faults (household_store\<lparr>faults := [Proceeds, Throws]\<rparr>)
        = Proceeds # Throws # [] \<and> Throws \<noteq> Proceeds"
    by simp
  with handleAddEditMember_add [of "[]" "''h2''" "household_store\<lparr>faults := [Proceeds, Throws]\<rparr>"
      "''m2''" "''p2''" Spouse Throws "[]"]
  have 3: "snd (handleAddEditMember (Some ''h2'') None ''m2'' ''p2'' Spouse
         (household_store\<lparr>faults := [Proceeds, Throws]\<rparr>)) =
       household_store\<lparr>faults := [Proceeds, Throws],
         db_members := db_members (household_store\<lparr>faults := [Proceeds, Throws]\<rparr>)
            @ [new_member ''m2'' ''p2'' Spouse ''h2''],
         faults := []\<rparr>"
    by blast
  from all av have "falsy (person_householdId mary)" by simp
  with av nf add 2 3 show ?thesis
    by (simp add: household_store_def john_def mary_def set_household_def)
qed

text \<open>
  John belongs to household \<open>h1\<close>. Adding him to \<open>h2\<close> shows success, creates a second
  member row and re-points his \<open>householdId\<close>, where C3 as stated has the operation fail
  with a conflict and leave both households as they were.
\<close>

theorem handleAddEditMember_no_conflict_counterexample:
  "person_householdId john = Some ''h1''
   \<and> handleAddEditMember (Some ''h2'') None ''m2'' ''p1'' Other household_store =
       (Msg_success,
        household_store
          \<lparr>db_people := [john\<lparr>person_householdId := Some ''h2''\<rparr>, mary],
           db_members := [john_row, new_member ''m2'' ''p1'' Other ''h2'']\<rparr>)"
  by (simp add: handleAddEditMember_def falsy_def household_store_def john_def mary_def
      HouseholdMember_create_def Person_update_def backend_call_def take_fault_def
      HouseholdMember_create_write_def Person_update_write_def new_member_def)

text \<open>
  C4, as amended. Removing a member is two separate writes without rollback:
  \<open>handleRemoveMember\<close> first marks the member row archived and then sets the person's
  \<open>householdId\<close> to \<open>null\<close>. When no call fails, the row is archived, the person's
  \<open>householdId\<close> is unset and success is shown; when the first call throws, nothing is
  written; when the first call goes through and the second fails or throws, the row
  stays archived and the person is not touched.
\<close>

theorem handleRemoveMember_two_writes:
  "handleRemoveMember False member s = (Msg_none, s)
   \<and> (faults s = [] \<longrightarrow>
        handleRemoveMember True member s =
          (Msg_success,
           s\<lparr>db_members := map (archive_member (member_id member)) (db_members s),
              db_people := map (set_household (member_personId member) None) (db_people s)\<rparr>))
   \<and> (faults s = Throws # fs \<longrightarrow>
        handleRemoveMember True member s = (Msg_error, s\<lparr>faults := fs\<rparr>))
   \<and> (faults s = Proceeds # f # fs \<and> f \<noteq> Proceeds \<longrightarrow>
        snd (handleRemoveMember True member s) =
          s\<lparr>db_members := map (archive_member (member_id member)) (db_members s),
             faults := fs\<rparr>)"
proof (intro conjI impI)
  show "handleRemoveMember False member s = (Msg_none, s)"
    by (simp add: handleRemoveMember_def)
next
  assume nf: "faults s = []"
  let ?s1 = "s\<lparr>db_members := map (archive_member (member_id member)) (db_members s)\<rparr>"
  obtain r1 where 1: "HouseholdMember_update (member_id member) (Patch_member_archived True) s
      = (r1, ?s1)" and n1: "r1 \<noteq> Threw"
    using HouseholdMember_archive_no_fault [OF nf] by blast
  have "faults ?s1 = []" using nf by simp
  from Person_update_householdId_no_fault [OF this] obtain r2 where
    2: "Person_update (member_personId member) (Patch_householdId None) ?s1
      = (r2, ?s1\<lparr>db_people := map (set_household (member_personId member) None) (db_people ?s1)\<rparr>)"
    and n2: "r2 \<noteq> Threw"
    by blast
  from 1 n1 2 n2 show "handleRemoveMember True member s =
          (Msg_success,
           s\<lparr>db_members := map (archive_member (member_id member)) (db_members s),
              db_people := map (set_household (member_personId member) None) (db_people s)\<rparr>)"
    by (cases r1; cases r2) (simp_all add: handleRemoveMember_def)
next
  assume "faults s = Throws # fs"
  then show "handleRemoveMember True member s = (Msg_error, s\<lparr>faults := fs\<rparr>)"
    by (simp add: handleRemoveMember_def HouseholdMember_update_def backend_call_fault)
next
  assume a: "faults s = Proceeds # f # fs \<and> f \<noteq> Proceeds"
  let ?s1 = "s\<lparr>db_members := map (archive_member (member_id member)) (db_members s),
              faults := f # fs\<rparr>"
  obtain r1 where 1: "HouseholdMember_update (member_id member) (Patch_member_archived True) s
      = (r1, ?s1)" and n1: "r1 \<noteq> Threw"
    using HouseholdMember_archive_proceeds [of s "f # fs"] a by blast
  have 2: "Person_update (member_personId member) (Patch_householdId None) ?s1
      = (if f = Throws then Threw else Failed InternalError, ?s1\<lparr>faults := fs\<rparr>)"
    unfolding Person_update_def using a by (intro backend_call_fault) simp_all
  from 1 n1 2 show "snd (handleRemoveMember True member s) =
          s\<lparr>db_members := map (archive_member (member_id member)) (db_members s),
             faults := fs\<rparr>"
    by (cases r1) (simp_all add: handleRemoveMember_def)
qed


theorem handleRemoveMember_two_writes_witness:
  "faults household_store = []
   \<and> handleRemoveMember True john_row household_store =
       (Msg_success,
        \<lparr>db_people = [john\<lparr>person_householdId := None\<rparr>, mary], db_tags = [],
         db_households = [smiths, joneses],
         db_members = [john_row\<lparr>member_archived := True\<rparr>], faults = []\<rparr>)
   \<and> handleRemoveMember True john_row (household_store\<lparr>faults := [Throws]\<rparr>) =
       (Msg_error, household_store)
   \<and> snd (handleRemoveMember True john_row (household_store\<lparr>faults := [Proceeds, Fails]\<rparr>)) =
       household_store\<lparr>db_members := [john_row\<lparr>member_archived := True\<rparr>]\<rparr>"
proof -
  have nf: "faults household_store = []"
    by (simp add: household_store_def)
  with handleRemoveMember_two_writes [of john_row household_store]
  have 1: "handleRemoveMember True john_row household_store =
          (Msg_success,
           household_store\<lparr>db_members :=
               map (archive_member (member_id john_row)) (db_members household_store),
             db_people :=
               map (set_household (member_personId john_row) None) (db_people household_store)\<rparr>)"
    by blast
  have "faults (household_store\<lparr>faults := [Throws]\<rparr>) = Throws # []"
    by simp
  with handleRemoveMember_two_writes [of john_row "household_store\<lparr>faults := [Throws]\<rparr>" "[]"]
  have 2: "handleRemoveMember True john_row (household_store\<lparr>faults := [Throws]\<rparr>) =
      (Msg_error, household_store\<lparr>faults := [Throws], faults := []\<rparr>)"
    by blast
  have "faults (household_store\<lparr>faults := [Proceeds, Fails]\<rparr>) = Proceeds # Fails # []
      \<and> Fails \<noteq> Proceeds"
    by simp
  with handleRemoveMember_two_writes
    [of john_row "household_store\<lparr>faults := [Proceeds, Fails]\<rparr>" "[]" Fails]
  have 3: "snd (handleRemoveMember True john_row (household_store\<lparr>faults := [Proceeds, Fails]\<rparr>)) =
      household_store\<lparr>faults := [Proceeds, Fails],
        db_members := map (archive_member (member_id john_row))
          (db_members (household_store\<lparr>faults := [Proceeds, Fails]\<rparr>)),
        faults := []\<rparr>"
    by blast
  from nf 1 2 3 show ?thesis
    by (simp add: household_store_def john_row_def john_def mary_def archive_member_def
        set_household_def)
qed

text \<open>
  The second call throws: the handler shows an error, the member row stays archived and
  John's \<open>householdId\<close> still names the household, where C4 as stated has the first
  write rolled back.
\<close>

theorem handleRemoveMember_no_rollback_counterexample:
  "household_agrees (household_store\<lparr>faults := [Proceeds, Throws]\<rparr>)
   \<and> handleRemoveMember True john_row (household_store\<lparr>faults := [Proceeds, Throws]\<rparr>) =
       (Msg_error, household_store\<lparr>db_members := [john_row\<lparr>member_archived := True\<rparr>]\<rparr>)
   \<and> person_householdId john = Some ''h1''
   \<and> \<not> household_agrees
         (snd (handleRemoveMember True john_row (household_store\<lparr>faults := [Proceeds, Throws]\<rparr>)))"
  by (simp add: household_agrees_def handleRemoveMember_def household_store_def john_row_def
      john_def mary_def HouseholdMember_update_def Person_update_def backend_call_def take_fault_def
      HouseholdMember_update_write_def)

section \<open>Deleting a household\<close>

text \<open>
  C5, as amended. Deleting a household takes no cascade flag and answers no conflict:
  once the user confirms, \<open>handleDelete\<close> writes \<open>archived: true\<close> to the household
  whether or not it has members. When the call succeeds the household is marked archived
  and success is shown; when the household does not exist, or the call fails or throws,
  an error is shown and nothing is written; without confirmation nothing happens.
\<close>

theorem handleDelete_archives:
  "handleDelete False household s = (Msg_none, s)
   \<and> (faults s = [] \<and> list_ex (\<lambda>h. household_id h = household_id household) (db_households s)
        \<longrightarrow> fst (handleDelete True household s) = Msg_success
          \<and> db_households (snd (handleDelete True household s)) =
              map (archive_household (household_id household)) (db_households s))
   \<and> (faults s = [] \<and> \<not> list_ex (\<lambda>h. household_id h = household_id household) (db_households s)
        \<longrightarrow> handleDelete True household s = (Msg_error, s))
   \<and> (faults s = f # fs \<and> f \<noteq> Proceeds
        \<longrightarrow> handleDelete True household s = (Msg_error, s\<lparr>faults := fs\<rparr>))"
proof (intro conjI impI)
  show "handleDelete False household s = (Msg_none, s)"
    by (simp add: handleDelete_def)
next
  assume a: "faults s = [] \<and> list_ex (\<lambda>h. household_id h = household_id household) (db_households s)"
  then have "Household_update (household_id household) True s =
      (Succeeded, s\<lparr>db_households :=
          map (archive_household (household_id household)) (db_households s)\<rparr>)"
    by (simp add: Household_update_def backend_call_no_fault Household_archive_write)
  then show "fst (handleDelete True household s) = Msg_success"
    and "db_households (snd (handleDelete True household s)) =
              map (archive_household (household_id household)) (db_households s)"
    by (simp_all add: handleDelete_def)
next
  assume a: "faults s = [] \<and> \<not> list_ex (\<lambda>h. household_id h = household_id household) (db_households s)"
  then have "Household_update (household_id household) True s = (Failed ReferenceError, s)"
    by (simp add: Household_update_def backend_call_no_fault Household_archive_write)
  then show "handleDelete True household s = (Msg_error, s)"
    by (simp add: handleDelete_def)
next
  assume a: "faults s = f # fs \<and> f \<noteq> Proceeds"
  then have "Household_update (household_id household) True s =
      (if f = Throws then Threw else Failed InternalError, s\<lparr>faults := fs\<rparr>)"
    unfolding Household_update_def by (intro backend_call_fault) simp_all
  then show "handleDelete True household s = (Msg_error, s\<lparr>faults := fs\<rparr>)"
    by (simp add: handleDelete_def)
qed

theorem handleDelete_archives_witness:
  "faults household_store = []
   \<and> list_ex (\<lambda>h. household_id h = household_id joneses) (db_households household_store)
   \<and> fst (handleDelete True joneses household_store) = Msg_success
   \<and> db_households (snd (handleDelete True joneses household_store)) =
       [smiths, joneses\<lparr>household_archived := True\<rparr>]
   \<and> handleDelete True (joneses\<lparr>household_id := ''h9''\<rparr>) household_store =
       (Msg_error, household_store)
   \<and> handleDelete True joneses (household_store\<lparr>faults := [Throws]\<rparr>) =
       (Msg_error, household_store)"
proof -
  have a: "faults household_store = []
      \<and> list_ex (\<lambda>h. household_id h = household_id joneses) (db_households household_store)"
    by (simp add: household_store_def joneses_def smiths_def)
  with handleDelete_archives [of joneses household_store]
  have 1: "fst (handleDelete True joneses household_store) = Msg_success
      \<and> db_households (snd (handleDelete True joneses household_store)) =
          map (archive_household (household_id joneses)) (db_households household_store)"
    by blast
  have "faults household_store = []
      \<and> \<not> list_ex (\<lambda>h. household_id h = household_id (joneses\<lparr>household_id := ''h9''\<rparr>))
            (db_households household_store)"
    by (simp add: household_store_def joneses_def smiths_def)
  with handleDelete_archives [of "joneses\<lparr>household_id := ''h9''\<rparr>" household_store]
  have 2: "handleDelete True (joneses\<lparr>household_id := ''h9''\<rparr>) household_store =
       (Msg_error, household_store)"
    by blast
  have "faults (household_store\<lparr>faults := [Throws]\<rparr>) = Throws # [] \<and> Throws \<noteq> Proceeds"
    by simp
  with handleDelete_archives [of joneses "household_store\<lparr>faults := [Throws]\<rparr>" Throws "[]"]
  have 3: "handleDelete True joneses (household_store\<lparr>faults := [Throws]\<rparr>) =
       (Msg_error, household_store\<lparr>faults := [Throws], faults := []\<rparr>)"
    by blast
  from a 1 2 3 show ?thesis
    by (simp add: household_store_def joneses_def smiths_def archive_household_def)
qed

text \<open>
  The Smith household has an active member and is deleted with success, where C5 as
  stated has the deletion fail with a conflict.
\<close>

theorem handleDelete_with_members_counterexample:
  "filter (\<lambda>m. \<not> member_archived m \<and> member_householdId m = household_id smiths)
       (db_members household_store) = [john_row]
   \<and> handleDelete True smiths household_store =
       (Msg_success,
        household_store\<lparr>db_households := [smiths\<lparr>household_archived := True\<rparr>, joneses]\<rparr>)"
  by (simp add: handleDelete_def household_store_def smiths_def joneses_def john_row_def
      Household_update_def backend_call_def take_fault_def Household_update_write_def)

text \<open>
  C1. After every operation each person's \<open>householdId\<close> agrees with the active member
  rows, and every stored id resolves to a live entity or is unset. The store with John in
  the Smith household satisfies both; after \<open>handleDelete\<close> of that household, which
  shows success, John's \<open>householdId\<close> and his member row name an archived household.
\<close>

theorem handleDelete_breaks_integrity:
  "integrity household_store
   \<and> fst (handleDelete True smiths household_store) = Msg_success
   \<and> household_agrees (snd (handleDelete True smiths household_store))
   \<and> \<not> no_dangling (snd (handleDelete True smiths household_store))
   \<and> \<not> integrity (snd (handleDelete True smiths household_store))"
  by (simp add: integrity_def household_agrees_def no_dangling_def live_household_def live_tag_def
      handleDelete_def household_store_def smiths_def joneses_def john_row_def john_def mary_def
      Household_update_def backend_call_def take_fault_def Household_update_write_def)

section \<open>The dashboard's top tags\<close>

lemma sort_cmp_sort_key:
  assumes "\<And>x y. (cmp x y \<le> 0) = (f x \<le> f y)"
  shows "sort_cmp cmp xs = sort_key f xs"
proof -
  have "insert_cmp cmp x ys = insort_key f x ys" for x ys
    by (induction ys) (simp_all add: assms)
  then show ?thesis
    unfolding sort_cmp_def sort_key_def by (induction xs) simp_all
qed

lemma rankedTags_sort_key:
  "rankedTags people tags = sort_key (\<lambda>a. - int (snd a)) (countedTags people tags)"
  unfolding rankedTags_def by (rule sort_cmp_sort_key) simp

text \<open>
  C7, as amended. \<open>topTags\<close> is the first five entries (all of them when there are
  fewer) of the tags with their usage counts, sorted by count descending; tags with equal
  counts keep the order in which \<open>Tag.list()\<close> returned them. \<open>createdAt\<close> is not
  consulted.
\<close>

theorem topTags_by_count_stable:
  "topTags people tags = take 5 (rankedTags people tags)
   \<and> length (topTags people tags) = min 5 (length tags)
   \<and> mset (rankedTags people tags) = mset (countedTags people tags)
   \<and> sorted_wrt (\<lambda>a b. snd b \<le> snd a) (rankedTags people tags)
   \<and> (\<forall>k. filter (\<lambda>a. snd a = k) (rankedTags people tags)
          = filter (\<lambda>a. snd a = k) (countedTags people tags))"
proof -
  let ?key = "\<lambda>a :: Tag \<times> nat. - int (snd a)"
  have len: "length (topTags people tags) = min 5 (length tags)"
    by (simp add: topTags_def rankedTags_sort_key countedTags_def min.commute)
  have "sorted (map ?key (rankedTags people tags))"
    by (simp only: rankedTags_sort_key sorted_sort_key)
  then have srt: "sorted_wrt (\<lambda>a b. snd b \<le> snd a) (rankedTags people tags)"
    by (simp add: sorted_map)
  have stable: "filter (\<lambda>a. snd a = k) (rankedTags people tags)
          = filter (\<lambda>a. snd a = k) (countedTags people tags)" for k
  proof -
    have "filter (\<lambda>a. ?key a = - int k) (sort_key ?key (countedTags people tags))
        = filter (\<lambda>a. ?key a = - int k) (countedTags people tags)"
      by (rule sort_key_stable)
    then show ?thesis by (simp add: rankedTags_sort_key)
  qed
  show ?thesis using len srt stable
    by (simp add: topTags_def rankedTags_sort_key)
qed

text \<open>
  Two tags with equal counts, the later-created one listed first: it stays first, where
  C7 as stated ranks the earlier-created one higher.
\<close>

theorem topTags_ties_counterexample:
  "topTags [] [tag_later, tag_earlier] = [(tag_later, 0), (tag_earlier, 0)]
   \<and> tag_createdAt tag_earlier < tag_createdAt tag_later
   \<and> \<not> ranked_by_count_then_createdAt (topTags [] [tag_later, tag_earlier])"
  by (simp add: topTags_def rankedTags_def countedTags_def usageCount_def sort_cmp_def
      ranked_by_count_then_createdAt_def tag_later_def tag_earlier_def)

section \<open>Visible fields and notes\<close>

lemma visibleFields_set:
  "set (visibleFields userRole fs) =
     {f \<in> set fs. \<not> field_archived f \<and> (field_visibility f = Public \<or> userRole \<noteq> Viewer)}"
  by (simp add: visibleFields_def)

text \<open>
  C8. The fields shown are exactly the non-archived definitions that are public or whose
  reader is not a viewer, in ascending \<open>orderIndex\<close> order. The set is right
  (\<open>visibleFields_set\<close>); the order is not: \<open>visibleFields\<close> keeps the order of
  \<open>ProfileFieldDef.list()\<close> and does not sort, while the settings page sorts the same
  list by \<open>orderIndex\<close>.
\<close>

theorem visibleFields_not_by_orderIndex:
  "visibleFields Admin [field_second, field_first] = [field_second, field_first]
   \<and> visibleFields Viewer [field_second, field_first] = [field_second, field_first]
   \<and> \<not> sorted (map field_orderIndex (visibleFields Admin [field_second, field_first]))
   \<and> sortedFields [field_second, field_first] = [field_first, field_second]"
  by (simp add: visibleFields_def sortedFields_def sort_cmp_def field_second_def field_first_def)

text \<open>
  C6. For role viewer no list of notes contains a \<open>staff_only\<close> note. Neither list
  looks at the role or at the visibility: a staff-only note of the person is returned by
  \<open>personNotes\<close> and by \<open>recentNotes\<close> whoever the reader is.
\<close>

theorem viewer_gets_staff_only_notes:
  "personNotes ''p1'' [staff_note] = [staff_note]
   \<and> recentNotes [staff_note] = [staff_note]
   \<and> note_visibility staff_note = Note_staff_only"
  by (simp add: personNotes_def recentNotes_def sort_cmp_def staff_note_def)

section \<open>The role-to-capability table\<close>

text \<open>
  C10. The role-to-capability mapping is exact: \<open>canView\<close> is true for every role;
  \<open>canEdit\<close>, \<open>canDelete\<close> and \<open>canViewStaffOnly\<close> are true exactly for owner, admin
  and member (so viewer has none of them); \<open>canManageSettings\<close> is true exactly for
  owner and admin; \<open>canManageOrganization\<close> is true exactly for owner.
\<close>

theorem permissions_exact:
  "canView r
   \<and> canEdit r = (r = Owner \<or> r = Admin \<or> r = Member)
   \<and> canDelete r = (r = Owner \<or> r = Admin \<or> r = Member)
   \<and> canViewStaffOnly r = (r = Owner \<or> r = Admin \<or> r = Member)
   \<and> canManageSettings r = (r = Owner \<or> r = Admin)
   \<and> canManageOrganization r = (r = Owner)
   \<and> \<not> canEdit Viewer \<and> \<not> canDelete Viewer \<and> \<not> canViewStaffOnly Viewer"
  by (cases r)
    (simp_all add: canView_def canEdit_def canDelete_def canViewStaffOnly_def
      canManageSettings_def canManageOrganization_def)

end
